theory Spec2Isabelle
  imports Complex_Main "HOL-Library.Word"
begin

section \<open>Python values used by the multiplexer\<close>

text \<open>
  Byte buffers are lists of octets. Python ints are unbounded, so counters are \<open>int\<close>.
  A Python float is a finite value, an infinity or NaN; only comparisons of floats are
  modelled (\<open>x < y\<close> is false as soon as one side is NaN), finite values are read as reals.
\<close>

type_synonym bytes = "8 word list"

datatype pyfloat = Fin real | PInf | NInf | NaN

fun flt_less :: "pyfloat \<Rightarrow> pyfloat \<Rightarrow> bool" where
  "flt_less NaN y = False"
| "flt_less (Fin a) NaN = False"
| "flt_less (Fin a) (Fin b) = (a < b)"
| "flt_less (Fin a) PInf = True"
| "flt_less (Fin a) NInf = False"
| "flt_less PInf y = False"
| "flt_less NInf NaN = False"
| "flt_less NInf NInf = False"
| "flt_less NInf (Fin b) = True"
| "flt_less NInf PInf = True"

fun flt_le :: "pyfloat \<Rightarrow> pyfloat \<Rightarrow> bool" where
  "flt_le NaN y = False"
| "flt_le (Fin a) NaN = False"
| "flt_le (Fin a) (Fin b) = (a \<le> b)"
| "flt_le (Fin a) PInf = True"
| "flt_le (Fin a) NInf = False"
| "flt_le PInf PInf = True"
| "flt_le PInf y = False"
| "flt_le NInf NaN = False"
| "flt_le NInf y = True"

text \<open>
  Python's two-argument \<open>max(a, b)\<close> keeps \<open>a\<close> unless \<open>b > a\<close>, and \<open>min(a, b)\<close> keeps
  \<open>a\<close> unless \<open>b < a\<close>.
\<close>

definition py_max :: "pyfloat \<Rightarrow> pyfloat \<Rightarrow> pyfloat" where
  "py_max a b = (if flt_less a b then b else a)"

definition py_min :: "pyfloat \<Rightarrow> pyfloat \<Rightarrow> pyfloat" where
  "py_min a b = (if flt_less b a then b else a)"

section \<open>config.py\<close>

definition ALL_SOURCES :: "string list" where
  "ALL_SOURCES = [''kinect_rgb'', ''kinect_ir'', ''kinect_depth'', ''picam'']"

definition KINECT_SOURCES :: "string list" where
  "KINECT_SOURCES = [''kinect_rgb'', ''kinect_ir'', ''kinect_depth'']"

definition DEFAULT_SOURCE :: string where
  "DEFAULT_SOURCE = ''picam''"

definition JPEG_QUALITY :: int where
  "JPEG_QUALITY = 70"

definition DEFAULT_PICAM_PRESET :: string where
  "DEFAULT_PICAM_PRESET = ''high''"

section \<open>state.py: StreamState\<close>

record stream_stats =
  frames_captured :: int
  frames_sent :: int
  clients_connected :: int
  source_switches :: int
  last_frame_time :: real

text \<open>
  \<open>waiters\<close> is the state of \<open>frame_condition\<close>: the threads parked in its \<open>wait\<close>.
  The mutex itself is not modelled; every method below is one critical section.
\<close>

record stream_state =
  stream_id :: string
  current_source :: string
  frame :: "bytes option"
  frame_id :: int
  jpeg_quality :: int
  scale_factor :: pyfloat
  picam_preset :: string
  stats :: stream_stats
  waiters :: "nat list"

definition StreamStats_init :: stream_stats where
  "StreamStats_init =
     \<lparr>frames_captured = 0, frames_sent = 0, clients_connected = 0,
      source_switches = 0, last_frame_time = 0\<rparr>"

text \<open>\<open>initial_source or DEFAULT_SOURCE\<close>: None and the empty string both give the default.\<close>

definition StreamState_init :: "string \<Rightarrow> string option \<Rightarrow> stream_state" where
  "StreamState_init sid initial_source =
     \<lparr>stream_id = sid,
      current_source = (case initial_source of
                          None \<Rightarrow> DEFAULT_SOURCE
                        | Some s \<Rightarrow> if s = [] then DEFAULT_SOURCE else s),
      frame = None, frame_id = 0,
      jpeg_quality = JPEG_QUALITY, scale_factor = Fin 1,
      picam_preset = DEFAULT_PICAM_PRESET,
      stats = StreamStats_init, waiters = []\<rparr>"

text \<open>\<open>set_frame(jpeg_bytes)\<close>; \<open>now\<close> is what \<open>time.time()\<close> returns. \<open>notify_all\<close> wakes
  every parked thread, which empties the condition's waiter list.\<close>

definition set_frame :: "stream_state \<Rightarrow> bytes \<Rightarrow> real \<Rightarrow> stream_state" where
  "set_frame st jpeg_bytes now =
     st\<lparr>frame := Some jpeg_bytes,
        frame_id := frame_id st + 1,
        stats := (stats st)\<lparr>frames_captured := frames_captured (stats st) + 1,
                             last_frame_time := now\<rparr>,
        waiters := []\<rparr>"

text \<open>\<open>set_source(source)\<close> returns the previous source.\<close>

definition set_source :: "stream_state \<Rightarrow> string \<Rightarrow> string \<times> stream_state" where
  "set_source st source =
     (current_source st,
      st\<lparr>current_source := source,
         stats := (stats st)\<lparr>source_switches := source_switches (stats st) + 1\<rparr>\<rparr>)"

text \<open>
  The keyword arguments of \<open>update_settings\<close>: a key that is absent is None. Every caller
  passes an int for \<open>jpeg_quality\<close> and a float for \<open>scale_factor\<close> (on which \<open>int(...)\<close>
  and \<open>float(...)\<close> are the identity); the literal 9 of a call \<open>scale_factor=9\<close> is the
  float 9.0.
\<close>

record kwargs =
  kw_jpeg_quality :: "int option"
  kw_scale_factor :: "pyfloat option"
  kw_picam_preset :: "string option"

definition no_kwargs :: kwargs where
  "no_kwargs = \<lparr>kw_jpeg_quality = None, kw_scale_factor = None, kw_picam_preset = None\<rparr>"

definition update_settings :: "stream_state \<Rightarrow> kwargs \<Rightarrow> stream_state" where
  "update_settings st kw =
     (let st1 = (case kw_jpeg_quality kw of
                   None \<Rightarrow> st
                 | Some q \<Rightarrow> st\<lparr>jpeg_quality := max 1 (min 100 q)\<rparr>);
          st2 = (case kw_scale_factor kw of
                   None \<Rightarrow> st1
                 | Some s \<Rightarrow> st1\<lparr>scale_factor := py_max (Fin 0.25) (py_min (Fin 2.0) s)\<rparr>);
          st3 = (case kw_picam_preset kw of
                   None \<Rightarrow> st2
                 | Some p \<Rightarrow> st2\<lparr>picam_preset := p\<rparr>)
      in st3)"

definition increment_clients :: "stream_state \<Rightarrow> int \<times> stream_state" where
  "increment_clients st =
     (let st' = st\<lparr>stats := (stats st)\<lparr>clients_connected := clients_connected (stats st) + 1\<rparr>\<rparr>
      in (clients_connected (stats st'), st'))"

definition decrement_clients :: "stream_state \<Rightarrow> int \<times> stream_state" where
  "decrement_clients st =
     (let st' = st\<lparr>stats := (stats st)\<lparr>clients_connected :=
                                      max 0 (clients_connected (stats st) - 1)\<rparr>\<rparr>
      in (clients_connected (stats st'), st'))"

definition increment_frames_sent :: "stream_state \<Rightarrow> stream_state" where
  "increment_frames_sent st =
     st\<lparr>stats := (stats st)\<lparr>frames_sent := frames_sent (stats st) + 1\<rparr>\<rparr>"

text \<open>
  What other threads can do to one stream: the methods above, and the bare
  \<open>frame_condition.notify_all()\<close> of \<open>GlobalState.shutdown\<close>.
\<close>

datatype stream_op =
    SetFrame bytes real
  | SetSource string
  | UpdateSettings kwargs
  | IncrementClients
  | DecrementClients
  | IncrementFramesSent
  | NotifyAll

fun apply_op :: "stream_state \<Rightarrow> stream_op \<Rightarrow> stream_state" where
  "apply_op st (SetFrame b now) = set_frame st b now"
| "apply_op st (SetSource s) = snd (set_source st s)"
| "apply_op st (UpdateSettings kw) = update_settings st kw"
| "apply_op st IncrementClients = snd (increment_clients st)"
| "apply_op st DecrementClients = snd (decrement_clients st)"
| "apply_op st IncrementFramesSent = increment_frames_sent st"
| "apply_op st NotifyAll = st\<lparr>waiters := []\<rparr>"

fun run_ops :: "stream_state \<Rightarrow> stream_op list \<Rightarrow> stream_state" where
  "run_ops st [] = st"
| "run_ops st (x # xs) = run_ops (apply_op st x) xs"

fun is_set_frame :: "stream_op \<Rightarrow> bool" where
  "is_set_frame (SetFrame b now) = True"
| "is_set_frame x = False"





section \<open>config.py: the runtime availability flags\<close>

text \<open>
  \<open>FREENECT_AVAILABLE\<close> and \<open>CV2_AVAILABLE\<close> are fixed when the module is imported;
  \<open>KINECT_AVAILABLE\<close> is the module global that \<open>update_kinect_availability\<close> rewrites.
\<close>

record config =
  FREENECT_AVAILABLE :: bool
  CV2_AVAILABLE :: bool
  KINECT_AVAILABLE :: bool

definition get_available_sources :: "config \<Rightarrow> string list" where
  "get_available_sources cfg = (if KINECT_AVAILABLE cfg then ALL_SOURCES else [''picam''])"


section \<open>sources/kinect.py: KinectCapture\<close>




record kinect =
  consecutive_failures :: int
  max_failures :: int
  available :: bool
  sync_calls :: nat
















section \<open>Python's \<open>str\<close> of an int\<close>

function show_nat :: "nat \<Rightarrow> string" where
  "show_nat n =
     (if n < 10 then [''0123456789'' ! n]
      else show_nat (n div 10) @ [''0123456789'' ! (n mod 10)])"
  by pat_completeness auto
termination
  by (relation "measure id") auto

definition str_int :: "int \<Rightarrow> string" where
  "str_int i = (if i < 0 then CHR ''-'' # show_nat (nat (- i)) else show_nat (nat i))"

section \<open>config.py: the Pi camera presets\<close>

record preset =
  width :: int
  height :: int
  fps :: int

definition PRESET_HIGH :: preset where
  "PRESET_HIGH = \<lparr>width = 1280, height = 800, fps = 24\<rparr>"

definition PICAM_PRESETS :: "(string \<times> preset) list" where
  "PICAM_PRESETS =
     [(''low'', \<lparr>width = 640, height = 480, fps = 30\<rparr>),
      (''medium'', \<lparr>width = 1280, height = 720, fps = 24\<rparr>),
      (''high'', PRESET_HIGH),
      (''full'', \<lparr>width = 1920, height = 1080, fps = 15\<rparr>)]"

text \<open>\<open>PICAM_PRESETS.get(preset, PICAM_PRESETS['high'])\<close>\<close>

definition presets_get :: "string \<Rightarrow> preset" where
  "presets_get p = (case map_of PICAM_PRESETS p of Some s \<Rightarrow> s | None \<Rightarrow> PRESET_HIGH)"

section \<open>sources/picam.py: PiCameraCapture\<close>

text \<open>
  An instance holds the handle of its subprocess (here its pid), the latest frame of the
  reader thread, and the camera command found by \<open>_detect_camera_command\<close> when it was
  built. Instances live in a store indexed by their identity; \<open>active_instance\<close> is the
  class attribute \<open>_active_instance\<close>. The operating system's side is kept too: the pids
  that are alive, and the log of every spawn and termination in the order they happen.
\<close>

record picam =
  process :: "nat option"
  frame_buffer :: "bytes option"
  running :: bool
  current_preset :: "string option"
  available_command :: "string option"

datatype os_event = Spawned nat "string list" | Terminated nat

record picam_world =
  instances :: "nat \<Rightarrow> picam"
  active_instance :: "nat option"
  os_procs :: "nat list"
  os_log :: "os_event list"
  next_pid :: nat

definition PiCameraCapture_init :: "string option \<Rightarrow> picam" where
  "PiCameraCapture_init cmd =
     \<lparr>process = None, frame_buffer = None, running = False, current_preset = None,
      available_command = cmd\<rparr>"

text \<open>No subprocess yet; \<open>cmds i\<close> is the camera command instance \<open>i\<close> detects, if any.\<close>

definition picam_world_init :: "(nat \<Rightarrow> string option) \<Rightarrow> picam_world" where
  "picam_world_init cmds =
     \<lparr>instances = (\<lambda>i. PiCameraCapture_init (cmds i)), active_instance = None,
      os_procs = [], os_log = [], next_pid = 0\<rparr>"

text \<open>\<open>_stop_internal\<close>: terminate (or kill) the subprocess and forget it.\<close>

definition stop_internal :: "picam_world \<Rightarrow> nat \<Rightarrow> picam_world" where
  "stop_internal w i =
     (let inst = instances w i;
          w1 = (case process inst of
                  None \<Rightarrow> w
                | Some p \<Rightarrow> w\<lparr>os_procs := removeAll p (os_procs w),
                              os_log := os_log w @ [Terminated p]\<rparr>);
          inst' = inst\<lparr>running := False, process := None, frame_buffer := None,
                       current_preset := None\<rparr>;
          w2 = w1\<lparr>instances := (instances w1)(i := inst')\<rparr>
      in if active_instance w2 = Some i then w2\<lparr>active_instance := None\<rparr> else w2)"






definition picam_get_frame :: "picam_world \<Rightarrow> nat \<Rightarrow> bytes option" where
  "picam_get_frame w i = frame_buffer (instances w i)"






fun is_spawn :: "os_event \<Rightarrow> bool" where
  "is_spawn (Spawned p args) = True"
| "is_spawn (Terminated p) = False"

definition spawn_count :: "picam_world \<Rightarrow> nat" where
  "spawn_count w = length (filter is_spawn (os_log w))"


section \<open>Python strings\<close>


text \<open>\<open>sep.join(parts)\<close>\<close>

fun join :: "string \<Rightarrow> string list \<Rightarrow> string" where
  "join sep [] = []"
| "join sep [x] = x"
| "join sep (x # y # ys) = x @ sep @ join sep (y # ys)"

text \<open>
  The \<open>repr\<close> of a list of strings, as an f-string prints it. It is applied to source and
  preset names only, which need no escaping.
\<close>

definition repr_list :: "string list \<Rightarrow> string" where
  "repr_list xs = ''['' @ join '', '' (map (\<lambda>x. [CHR 0x27] @ x @ [CHR 0x27]) xs) @ '']''"

text \<open>
  The builtins whose text formats are Python's own: \<open>int(s)\<close> and \<open>float(s)\<close> of a string
  (None when they raise ValueError), \<open>str\<close> of a float, and \<open>int(n * x)\<close> for an int \<open>n\<close>
  and a float \<open>x\<close>. The model takes them as parameters.
\<close>

record py =
  py_int :: "string \<Rightarrow> int option"
  py_float :: "string \<Rightarrow> pyfloat option"
  str_float :: "pyfloat \<Rightarrow> string"
  int_scaled :: "int \<Rightarrow> pyfloat \<Rightarrow> int"

section \<open>state.py: GlobalState\<close>

text \<open>
  \<open>streams\<close> is a dict: an association list in insertion order, with one entry per key.
  A stream object is mutated in place, which is an update of the entry at its key.
\<close>

record global_state =
  gs_running :: bool
  gs_debug :: bool
  streams :: "(string \<times> stream_state) list"

definition GlobalState_init :: global_state where
  "GlobalState_init = \<lparr>gs_running = True, gs_debug = False, streams = []\<rparr>"

datatype exn = ValueError string | IndexError

definition create_stream :: "global_state \<Rightarrow> string \<Rightarrow> string option \<Rightarrow> exn + global_state" where
  "create_stream gs sid initial_source =
     (if sid \<in> set (map fst (streams gs))
      then Inl (ValueError (''Stream '' @ [CHR 0x27] @ sid @ [CHR 0x27] @ '' already exists''))
      else Inr (gs\<lparr>streams := streams gs @ [(sid, StreamState_init sid initial_source)]\<rparr>))"

definition get_stream :: "global_state \<Rightarrow> string \<Rightarrow> stream_state option" where
  "get_stream gs sid = map_of (streams gs) sid"

definition list_streams :: "global_state \<Rightarrow> string list" where
  "list_streams gs = map fst (streams gs)"

definition modify_stream ::
  "global_state \<Rightarrow> string \<Rightarrow> (stream_state \<Rightarrow> stream_state) \<Rightarrow> global_state" where
  "modify_stream gs sid f =
     gs\<lparr>streams := map (\<lambda>(k, v). if k = sid then (k, f v) else (k, v)) (streams gs)\<rparr>"

text \<open>\<open>shutdown\<close>: clear the flag, then broadcast on every stream's condition.\<close>

definition shutdown :: "global_state \<Rightarrow> global_state" where
  "shutdown gs =
     gs\<lparr>gs_running := False,
        streams := map (\<lambda>(k, v). (k, apply_op v NotifyAll)) (streams gs)\<rparr>"

section \<open>manager.py: StreamManager\<close>

text \<open>
  The manager with everything it reaches: the module globals of \<open>config\<close>, the registry,
  the Kinect singleton and the Pi camera world, in which the manager's camera
  (\<open>get_picam()\<close>) is instance 0.
\<close>

record manager =
  m_config :: config
  m_state :: global_state
  m_kinect :: kinect
  m_picam :: picam_world
  m_running :: bool

definition the_picam :: nat where
  "the_picam = 0"

text \<open>
  \<open>StreamManager.create_stream\<close>. The module binds \<open>KINECT_AVAILABLE\<close> by
  \<open>from .config import\<close> when it is imported, so it reads the initial value of the
  flag, which is \<open>FREENECT_AVAILABLE\<close>.
\<close>

definition manager_create_stream :: "manager \<Rightarrow> string \<Rightarrow> string option \<Rightarrow> exn + manager" where
  "manager_create_stream m sid initial_source =
     (let src0 = (case initial_source of
                    None \<Rightarrow> if FREENECT_AVAILABLE (m_config m) then ''kinect_rgb'' else ''picam''
                  | Some s \<Rightarrow> s);
          src = (if src0 \<in> set (get_available_sources (m_config m)) then src0 else ''picam'')
      in case create_stream (m_state m) sid (Some src) of
           Inl e \<Rightarrow> Inl e
         | Inr gs \<Rightarrow> Inr (m\<lparr>m_state := gs\<rparr>))"

definition switch_source :: "manager \<Rightarrow> string \<Rightarrow> string \<Rightarrow> (bool \<times> string) \<times> manager" where
  "switch_source m sid source =
     (case get_stream (m_state m) sid of
        None \<Rightarrow> ((False, ''Stream '' @ [CHR 0x27] @ sid @ [CHR 0x27] @ '' not found''), m)
      | Some stream \<Rightarrow>
          (let available = get_available_sources (m_config m) in
           if source \<notin> set available then
             (if source \<in> set KINECT_SOURCES
              then ((False, ''Kinect unavailable. Available sources: '' @ repr_list available), m)
              else ((False, ''Unknown source '' @ [CHR 0x27] @ source @ [CHR 0x27]
                              @ ''. Available: '' @ repr_list available), m))
           else
             (let old_source = fst (set_source stream source) in
              ((True, ''Switched '' @ sid @ '' from '' @ old_source @ '' to '' @ source),
               m\<lparr>m_state := modify_stream (m_state m) sid (\<lambda>st. snd (set_source st source))\<rparr>))))"

section \<open>servers/http\_server.py: the /switch handler\<close>

record response =
  status :: int
  body :: string

text \<open>A request ends with a response, or with an exception nobody catches.\<close>

datatype handled = Responded response | Crashed exn



text \<open>\<open>params.get(key, default)\<close>\<close>

definition dict_get :: "(string \<rightharpoonup> string) \<Rightarrow> string \<Rightarrow> string \<Rightarrow> string" where
  "dict_get params key dflt = (case params key of None \<Rightarrow> dflt | Some v \<Rightarrow> v)"

definition bad_request :: "string \<Rightarrow> handled" where
  "bad_request msg = Responded \<lparr>status = 400, body = msg\<rparr>"

text \<open>The four fields in the order the handler takes them; each returns early on failure.\<close>

definition switch_picam_res ::
  "manager \<Rightarrow> string \<Rightarrow> (string \<rightharpoonup> string) \<Rightarrow> string list \<Rightarrow> handled \<times> manager" where
  "switch_picam_res m target params response_parts =
     (let picam_res = dict_get params ''picam_res'' '''';
          ok_end = (\<lambda>m' parts.
            if parts \<noteq> [] then
              (Responded \<lparr>status = 200,
                 body = ''OK: '' @ join '', '' parts @ '' (stream: '' @ target @ '')'' @ [CHR 0x0A]\<rparr>, m')
            else
              (bad_request (''ERROR: No valid parameters. Use: source, quality, scale, picam_res''
                  @ [CHR 0x0A]), m'))
      in if picam_res \<noteq> [] then
           (if picam_res \<in> set (map fst PICAM_PRESETS) then
              ok_end (m\<lparr>m_state := modify_stream (m_state m) target
                          (\<lambda>st. update_settings st (no_kwargs\<lparr>kw_picam_preset := Some picam_res\<rparr>))\<rparr>)
                     (response_parts @ [''picam_res='' @ picam_res])
            else (bad_request (''ERROR: picam_res must be: '' @ repr_list (map fst PICAM_PRESETS)
                     @ [CHR 0x0A]), m))
         else ok_end m response_parts)"

definition switch_scale ::
  "py \<Rightarrow> manager \<Rightarrow> string \<Rightarrow> (string \<rightharpoonup> string) \<Rightarrow> string list \<Rightarrow> handled \<times> manager" where
  "switch_scale py m target params response_parts =
     (let scale = dict_get params ''scale'' '''' in
      if scale \<noteq> [] then
        (case py_float py scale of
           None \<Rightarrow> (bad_request (''ERROR: scale must be 0.25-2.0'' @ [CHR 0x0A]), m)
         | Some s \<Rightarrow>
             if flt_le (Fin 0.25) s \<and> flt_le s (Fin 2.0) then
               switch_picam_res
                 (m\<lparr>m_state := modify_stream (m_state m) target
                       (\<lambda>st. update_settings st (no_kwargs\<lparr>kw_scale_factor := Some s\<rparr>))\<rparr>)
                 target params (response_parts @ [''scale='' @ str_float py s])
             else (bad_request (''ERROR: scale must be 0.25-2.0'' @ [CHR 0x0A]), m))
      else switch_picam_res m target params response_parts)"




text \<open>A response that is HTTP 400 with an error line.\<close>

definition rejected :: "handled \<Rightarrow> bool" where
  "rejected h =
     (case h of
        Responded r \<Rightarrow> status r = 400 \<and> take 7 (body r) = ''ERROR: '' \<and> last (body r) = CHR 0x0A
      | Crashed e \<Rightarrow> False)"

section \<open>servers/control\_server.py: the command loop\<close>

text \<open>
  Commands are ASCII text. \<open>split_ws\<close> is \<open>str.split()\<close> (runs of whitespace separate,
  no empty pieces), \<open>strip\<close> is \<open>str.strip()\<close> and \<open>lower\<close> is \<open>str.lower()\<close> on ASCII.
\<close>

definition is_space :: "char \<Rightarrow> bool" where
  "is_space c = (c \<in> set [CHR 0x20, CHR 0x09, CHR 0x0A, CHR 0x0B, CHR 0x0C, CHR 0x0D,
                            CHR 0x1C, CHR 0x1D, CHR 0x1E, CHR 0x1F])"

fun ws_acc :: "string \<Rightarrow> string \<Rightarrow> string list" where
  "ws_acc cur [] = (if cur = [] then [] else [rev cur])"
| "ws_acc cur (x # xs) =
     (if is_space x then (if cur = [] then ws_acc [] xs else rev cur # ws_acc [] xs)
      else ws_acc (x # cur) xs)"

definition split_ws :: "string \<Rightarrow> string list" where
  "split_ws s = ws_acc [] s"

definition strip :: "string \<Rightarrow> string" where
  "strip s = rev (dropWhile is_space (rev (dropWhile is_space s)))"

definition lower_char :: "char \<Rightarrow> char" where
  "lower_char c =
     (case map_of (zip ''ABCDEFGHIJKLMNOPQRSTUVWXYZ'' ''abcdefghijklmnopqrstuvwxyz'') c of
        None \<Rightarrow> c
      | Some d \<Rightarrow> d)"

definition lower :: "string \<Rightarrow> string" where
  "lower s = map lower_char s"

definition KINECT_WIDTH :: int where
  "KINECT_WIDTH = 640"

definition KINECT_HEIGHT :: int where
  "KINECT_HEIGHT = 480"

text \<open>The resolution string of a stream, as \<open>get_status\<close> and \<open>status\<close> both compute it.\<close>

definition resolution :: "py \<Rightarrow> stream_state \<Rightarrow> string" where
  "resolution py st =
     (if current_source st = ''picam''
      then str_int (width (presets_get (picam_preset st))) @ ''x''
           @ str_int (height (presets_get (picam_preset st)))
      else str_int (int_scaled py KINECT_WIDTH (scale_factor st)) @ ''x''
           @ str_int (int_scaled py KINECT_HEIGHT (scale_factor st)))"

text \<open>Each \<open>client.send\<close> of a line is an element; the reply is their concatenation.\<close>

definition send_lines :: "string list \<Rightarrow> string" where
  "send_lines ls = concat (map (\<lambda>l. l @ [CHR 0x0A]) ls)"

definition prompt :: string where
  "prompt = ''> ''"

text \<open>The lines of \<open>status\<close> for the selected stream.\<close>

definition status_lines :: "py \<Rightarrow> string \<Rightarrow> stream_state \<Rightarrow> string list" where
  "status_lines py selected st =
     [''Stream: '' @ selected,
      ''Source: '' @ current_source st,
      ''Resolution: '' @ resolution py st,
      ''JPEG Quality: '' @ str_int (jpeg_quality st),
      ''Scale Factor: '' @ str_float py (scale_factor st),
      ''Pi Cam Preset: '' @ picam_preset st,
      ''Frames: '' @ str_int (frames_captured (stats st)),
      ''Clients: '' @ str_int (clients_connected (stats st))]"

text \<open>
  The lines of \<open>status all\<close>, from \<open>get_status\<close>. Its \<open>kinect_available\<close> is the
  manager module's own \<open>KINECT_AVAILABLE\<close>, bound when the module was imported, which is
  \<open>FREENECT_AVAILABLE\<close>; \<open>available_sources\<close> is read from \<open>config\<close> at the call.
\<close>

definition status_all_lines :: "py \<Rightarrow> manager \<Rightarrow> string \<Rightarrow> string list" where
  "status_all_lines py m selected =
     [''Kinect: '' @ (if FREENECT_AVAILABLE (m_config m) then ''Available'' else ''N/A''),
      ''Sources: '' @ join '', '' (get_available_sources (m_config m)),
      '''']
     @ concat (map (\<lambda>(sid, st).
         [''['' @ sid @ '']'' @ (if sid = selected then '' <-- selected'' else ''''),
          ''  Source: '' @ current_source st,
          ''  Resolution: '' @ resolution py st,
          ''  Quality: '' @ str_int (jpeg_quality st),
          ''  Frames: '' @ str_int (frames_captured (stats st)),
          ''  Clients: '' @ str_int (clients_connected (stats st))])
        (streams (m_state m)))"

definition pad20 :: "string \<Rightarrow> string" where
  "pad20 s = s @ replicate (20 - length s) CHR '' ''"

definition help_lines :: "manager \<Rightarrow> string list" where
  "help_lines m =
     ['''', ''Video Multiplexer Control Commands'', ''==================================='', '''',
      ''Stream Management:'',
      ''  streams              - List all streams'',
      ''  select <stream_id>   - Select stream to control'', '''',
      ''Source Selection:'']
     @ map (\<lambda>src. ''  '' @ pad20 src @ '' - Switch to '' @ src) (get_available_sources (m_config m))
     @ ['''', ''Settings:'',
        ''  quality <1-100>      - Set JPEG compression'',
        ''  scale <0.25-2.0>     - Scale Kinect output'',
        ''  picam_res <preset>   - Pi camera: '' @ repr_list (map fst PICAM_PRESETS),
        '''', ''Info:'',
        ''  status               - Show selected stream status'',
        ''  status all           - Show all streams status'',
        ''  help                 - This help'',
        ''  quit                 - Disconnect'',
        '''']"

text \<open>
  What a connection thread holds: the manager it talks to and its own selected stream.
  One received chunk is one command; the result is the reply sent, and whether the
  connection goes on.
\<close>

record session =
  s_manager :: manager
  selected_stream :: string
  server_running :: bool

text \<open>The start of \<open>_handle_client\<close>: the first stream is selected, or \<open>main\<close>.\<close>

definition session_init :: "manager \<Rightarrow> bool \<Rightarrow> session" where
  "session_init m running_flag =
     \<lparr>s_manager = m,
      selected_stream = (case list_streams (m_state m) of [] \<Rightarrow> ''main'' | x # xs \<Rightarrow> x),
      server_running = running_flag\<rparr>"

definition welcome_banner :: "session \<Rightarrow> string" where
  "welcome_banner s =
     send_lines [''Video Multiplexer Control Server v2.0'',
                 ''Streams: '' @ join '', '' (list_streams (m_state (s_manager s))),
                 ''Selected: '' @ selected_stream s,
                 ''Available sources: '' @ join '', '' (get_available_sources (m_config (s_manager s))),
                 ''Type '' @ [CHR 0x27] @ ''help'' @ [CHR 0x27] @ '' for commands.'']
     @ prompt"

definition not_found :: "string \<Rightarrow> string" where
  "not_found sid = ''ERROR: Stream '' @ [CHR 0x27] @ sid @ [CHR 0x27] @ '' not found'' @ [CHR 0x0A] @ prompt"

definition with_stream ::
  "session \<Rightarrow> (stream_state \<Rightarrow> string \<times> session \<times> bool) \<Rightarrow> string \<times> session \<times> bool" where
  "with_stream s f =
     (case get_stream (m_state (s_manager s)) (selected_stream s) of
        None \<Rightarrow> (not_found (selected_stream s), s, True)
      | Some stream \<Rightarrow> f stream)"

definition update_selected :: "session \<Rightarrow> kwargs \<Rightarrow> session" where
  "update_selected s kw =
     s\<lparr>s_manager := (s_manager s)\<lparr>m_state :=
          modify_stream (m_state (s_manager s)) (selected_stream s) (\<lambda>st. update_settings st kw)\<rparr>\<rparr>"

definition control_command :: "py \<Rightarrow> session \<Rightarrow> string \<Rightarrow> string \<times> session \<times> bool" where
  "control_command py s data =
     (let cmd = strip data;
          parts = split_ws cmd;
          m = s_manager s;
          selected = selected_stream s
      in case parts of
           [] \<Rightarrow> (prompt, s, True)
         | p0 # args \<Rightarrow>
            (let command = lower p0 in
             if command = ''streams'' then
               (send_lines [''Available streams: '' @ join '', '' (list_streams (m_state m)),
                            ''Currently selected: '' @ selected] @ prompt, s, True)
             else if command = ''select'' then
               (case args of
                  [] \<Rightarrow> (send_lines [''Current: '' @ selected @ '' (usage: select <stream_id>)'']
                          @ prompt, s, True)
                | target # rest \<Rightarrow>
                    (case get_stream (m_state m) target of
                       Some stream \<Rightarrow>
                         (send_lines [''OK: Selected stream '' @ [CHR 0x27] @ target @ [CHR 0x27]]
                            @ prompt, s\<lparr>selected_stream := target\<rparr>, True)
                     | None \<Rightarrow> (not_found target, s, True)))
             else if command \<in> set (get_available_sources (m_config m)) then
               (case switch_source m selected command of
                  ((True, msg), m') \<Rightarrow> (send_lines [''OK: '' @ msg] @ prompt, s\<lparr>s_manager := m'\<rparr>, True)
                | ((False, msg), m') \<Rightarrow>
                    (send_lines [''ERROR: '' @ msg] @ prompt, s\<lparr>s_manager := m'\<rparr>, True))
             else if command \<in> set KINECT_SOURCES then
               (send_lines [''ERROR: Kinect not available''] @ prompt, s, True)
             else if command = ''quality'' then
               with_stream s (\<lambda>stream.
                 case args of
                   [] \<Rightarrow> (send_lines [''Current quality: '' @ str_int (jpeg_quality stream)
                                        @ '' (usage: quality <1-100>)''] @ prompt, s, True)
                 | a # rest \<Rightarrow>
                     (case py_int py a of
                        None \<Rightarrow> (send_lines [''ERROR: quality must be a number 1-100''] @ prompt, s, True)
                      | Some q \<Rightarrow>
                          if 1 \<le> q \<and> q \<le> 100 then
                            (send_lines [''OK: JPEG quality set to '' @ str_int q] @ prompt,
                             update_selected s (no_kwargs\<lparr>kw_jpeg_quality := Some q\<rparr>), True)
                          else (send_lines [''ERROR: quality must be 1-100''] @ prompt, s, True)))
             else if command = ''scale'' then
               with_stream s (\<lambda>stream.
                 case args of
                   [] \<Rightarrow> (send_lines [''Current scale: '' @ str_float py (scale_factor stream)
                                        @ '' (usage: scale <0.25-2.0>)''] @ prompt, s, True)
                 | a # rest \<Rightarrow>
                     (case py_float py a of
                        None \<Rightarrow> (send_lines [''ERROR: scale must be a number 0.25-2.0''] @ prompt, s, True)
                      | Some x \<Rightarrow>
                          if flt_le (Fin 0.25) x \<and> flt_le x (Fin 2.0) then
                            (send_lines [''OK: Scale set to '' @ str_float py x @ '' (Kinect: ''
                                 @ str_int (int_scaled py KINECT_WIDTH x) @ ''x''
                                 @ str_int (int_scaled py KINECT_HEIGHT x) @ '')''] @ prompt,
                             update_selected s (no_kwargs\<lparr>kw_scale_factor := Some x\<rparr>), True)
                          else (send_lines [''ERROR: scale must be 0.25-2.0''] @ prompt, s, True)))
             else if command = ''picam_res'' then
               with_stream s (\<lambda>stream.
                 case args of
                   [] \<Rightarrow> (send_lines [''Current preset: '' @ picam_preset stream @ '' (options: ''
                                        @ repr_list (map fst PICAM_PRESETS) @ '')''] @ prompt, s, True)
                 | a # rest \<Rightarrow>
                     (case map_of PICAM_PRESETS (lower a) of
                        Some p \<Rightarrow>
                          (send_lines [''OK: Pi camera set to '' @ lower a @ '' ('' @ str_int (width p)
                               @ ''x'' @ str_int (height p) @ '' @ '' @ str_int (fps p) @ ''fps)'']
                             @ prompt,
                           update_selected s (no_kwargs\<lparr>kw_picam_preset := Some (lower a)\<rparr>), True)
                      | None \<Rightarrow>
                          (send_lines [''ERROR: preset must be: '' @ repr_list (map fst PICAM_PRESETS)]
                             @ prompt, s, True)))
             else if command = ''status'' then
               (if args \<noteq> [] \<and> lower (hd args) = ''all''
                then (send_lines (status_all_lines py m selected) @ prompt, s, True)
                else with_stream s (\<lambda>stream.
                       (send_lines (status_lines py selected stream) @ prompt, s, True)))
             else if command = ''help'' then
               (send_lines (help_lines m) @ prompt, s, True)
             else if command \<in> set [''quit'', ''exit'', ''q''] then
               (send_lines [''Goodbye!''], s, False)
             else
               (send_lines [''Unknown command: '' @ cmd @ ''. Type '' @ [CHR 0x27] @ ''help''
                            @ [CHR 0x27] @ '' for commands.''] @ prompt, s, True)))"

text \<open>
  The loop of \<open>_handle_client\<close> over the chunks received: it ends at an empty chunk
  (the peer closed), at \<open>quit\<close>, or when a running flag is down.
\<close>

fun control_session :: "py \<Rightarrow> session \<Rightarrow> string list \<Rightarrow> string list \<times> session" where
  "control_session py s [] = ([], s)"
| "control_session py s (d # ds) =
     (if \<not> server_running s \<or> \<not> gs_running (m_state (s_manager s)) \<or> d = [] then ([], s)
      else (case control_command py s d of
              (reply, s', go) \<Rightarrow>
                if go then (case control_session py s' ds of (rs, s'') \<Rightarrow> (reply # rs, s''))
                else ([reply], s')))"

section \<open>A concrete deployment, for evaluating the model\<close>

text \<open>
  Streams \<open>main\<close> and \<open>secondary\<close> as \<open>__main__\<close> creates them (both on the Pi camera
  here), the Kinect present or absent, and a reading of the Python builtins that knows the
  few literals the examples use.
\<close>

definition example_py :: py where
  "example_py =
     \<lparr>py_int = (\<lambda>s. if s = ''500'' then Some 500 else if s = ''85'' then Some 85 else None),
      py_float = (\<lambda>s. if s = ''0.5'' then Some (Fin 0.5) else None),
      str_float = (\<lambda>x. if x = Fin 1 then ''1.0'' else if x = Fin 0.5 then ''0.5'' else ''2.0''),
      int_scaled = (\<lambda>n x. case x of Fin r \<Rightarrow> \<lfloor>of_int n * r\<rfloor> | PInf \<Rightarrow> 0 | NInf \<Rightarrow> 0 | NaN \<Rightarrow> 0)\<rparr>"

definition example_manager :: "bool \<Rightarrow> manager" where
  "example_manager kinect_present =
     \<lparr>m_config = \<lparr>FREENECT_AVAILABLE = True, CV2_AVAILABLE = True,
                   KINECT_AVAILABLE = kinect_present\<rparr>,
      m_state = \<lparr>gs_running = True, gs_debug = False,
                  streams = [(''main'', StreamState_init ''main'' (Some ''picam'')),
                             (''secondary'', StreamState_init ''secondary'' (Some ''picam''))]\<rparr>,
      m_kinect = \<lparr>consecutive_failures = 0, max_failures = 5, available = kinect_present,
                   sync_calls = 1\<rparr>,
      m_picam = picam_world_init (\<lambda>i. Some ''rpicam-vid''),
      m_running = True\<rparr>"

section \<open>Verified properties\<close>

subsection \<open>StreamState\<close>

lemma frame_id_apply_op:
  "frame_id (apply_op st x) = frame_id st + (if is_set_frame x then 1 else 0)"
  by (cases x)
     (simp_all add: set_frame_def set_source_def update_settings_def increment_clients_def
        decrement_clients_def increment_frames_sent_def Let_def split: option.splits)

lemma frame_id_run_ops:
  "frame_id (run_ops st ops) = frame_id st + int (length (filter is_set_frame ops))"
  by (induction ops arbitrary: st) (simp_all add: frame_id_apply_op)

text \<open>
  C2. \<open>set_frame\<close> stores the bytes as the current frame, adds exactly one to the frame
  sequence and to \<open>frames_captured\<close>, records the timestamp and wakes every waiter (the
  condition's waiter list is empty afterwards). So the sequence is strictly greater after
  every capture, and over any sequence of operations on the stream it grows by the number
  of \<open>set_frame\<close> calls among them: it never decreases.
\<close>

theorem set_frame_sequence_monotone:
  "frame (set_frame st b now) = Some b
   \<and> frame_id (set_frame st b now) = frame_id st + 1
   \<and> frames_captured (stats (set_frame st b now)) = frames_captured (stats st) + 1
   \<and> last_frame_time (stats (set_frame st b now)) = now
   \<and> waiters (set_frame st b now) = []
   \<and> frame_id st < frame_id (set_frame st b now)
   \<and> frame_id (run_ops st ops) = frame_id st + int (length (filter is_set_frame ops))
   \<and> frame_id st \<le> frame_id (run_ops st ops)
   \<and> frame_id (run_ops st ops) < frame_id (run_ops st (ops @ [SetFrame b now]))"
  by (simp add: frame_id_run_ops) (simp add: set_frame_def)

lemma clients_apply_op: "0 \<le> clients_connected (stats st) \<Longrightarrow> 0 \<le> clients_connected (stats (apply_op st x))"
  by (cases x)
     (simp_all add: set_frame_def set_source_def update_settings_def increment_clients_def
        decrement_clients_def increment_frames_sent_def Let_def split: option.splits)

lemma clients_run_ops: "0 \<le> clients_connected (stats st) \<Longrightarrow> 0 \<le> clients_connected (stats (run_ops st ops))"
  by (induction ops arbitrary: st) (simp_all add: clients_apply_op)

lemma py_clamp_range:
  "flt_le (Fin 0.25) (py_max (Fin 0.25) (py_min (Fin 2.0) s))
   \<and> flt_le (py_max (Fin 0.25) (py_min (Fin 2.0) s)) (Fin 2.0)"
  by (cases s) (simp_all add: py_max_def py_min_def)

lemma py_clamp_keeps:
  "flt_le (Fin 0.25) s \<Longrightarrow> flt_le s (Fin 2.0) \<Longrightarrow> py_max (Fin 0.25) (py_min (Fin 2.0) s) = s"
  by (cases s) (auto simp add: py_max_def py_min_def)

text \<open>
  C3. \<open>update_settings\<close> clamps \<open>jpeg_quality\<close> into [1, 100] and \<open>scale_factor\<close> into
  [0.25, 2.0], whatever the stream state and the other keyword arguments are (a NaN or
  infinite scale included): quality 150 gives 100, quality -5 gives 1, scale 9 gives 2.0,
  scale 0.01 gives 0.25, and a value already in range is stored as it is.
\<close>

theorem update_settings_clamps:
  "jpeg_quality (update_settings st (kw\<lparr>kw_jpeg_quality := Some q\<rparr>)) = max 1 (min 100 q)
   \<and> 1 \<le> jpeg_quality (update_settings st (kw\<lparr>kw_jpeg_quality := Some q\<rparr>))
   \<and> jpeg_quality (update_settings st (kw\<lparr>kw_jpeg_quality := Some q\<rparr>)) \<le> 100
   \<and> flt_le (Fin 0.25) (scale_factor (update_settings st (kw\<lparr>kw_scale_factor := Some s\<rparr>)))
   \<and> flt_le (scale_factor (update_settings st (kw\<lparr>kw_scale_factor := Some s\<rparr>))) (Fin 2.0)
   \<and> (flt_le (Fin 0.25) s \<and> flt_le s (Fin 2.0) \<longrightarrow>
        scale_factor (update_settings st (kw\<lparr>kw_scale_factor := Some s\<rparr>)) = s)
   \<and> jpeg_quality (update_settings st (no_kwargs\<lparr>kw_jpeg_quality := Some 150\<rparr>)) = 100
   \<and> jpeg_quality (update_settings st (no_kwargs\<lparr>kw_jpeg_quality := Some (- 5)\<rparr>)) = 1
   \<and> scale_factor (update_settings st (no_kwargs\<lparr>kw_scale_factor := Some (Fin 9)\<rparr>)) = Fin 2.0
   \<and> scale_factor (update_settings st (no_kwargs\<lparr>kw_scale_factor := Some (Fin 0.01)\<rparr>)) = Fin 0.25"
proof -
  have q: "jpeg_quality (update_settings st (kw\<lparr>kw_jpeg_quality := Some q\<rparr>)) = max 1 (min 100 q)"
    by (simp add: update_settings_def Let_def split: option.splits)
  have s: "scale_factor (update_settings st (kw\<lparr>kw_scale_factor := Some s\<rparr>))
           = py_max (Fin 0.25) (py_min (Fin 2.0) s)"
    by (simp add: update_settings_def Let_def split: option.splits)
  have ex: "jpeg_quality (update_settings st (no_kwargs\<lparr>kw_jpeg_quality := Some 150\<rparr>)) = 100
    \<and> jpeg_quality (update_settings st (no_kwargs\<lparr>kw_jpeg_quality := Some (- 5)\<rparr>)) = 1
    \<and> scale_factor (update_settings st (no_kwargs\<lparr>kw_scale_factor := Some (Fin 9)\<rparr>)) = Fin 2.0
    \<and> scale_factor (update_settings st (no_kwargs\<lparr>kw_scale_factor := Some (Fin 0.01)\<rparr>)) = Fin 0.25"
    by (simp add: update_settings_def no_kwargs_def py_max_def py_min_def)
  show ?thesis
    using q s ex py_clamp_range [of s] py_clamp_keeps [of s] by simp
qed

theorem update_settings_clamps_witness:
  "flt_le (Fin 0.25) (Fin 1.5) \<and> flt_le (Fin 1.5) (Fin 2.0)
   \<and> scale_factor (update_settings (StreamState_init ''main'' None)
        (no_kwargs\<lparr>kw_scale_factor := Some (Fin 1.5)\<rparr>)) = Fin 1.5
   \<and> jpeg_quality (update_settings (StreamState_init ''main'' None)
        (no_kwargs\<lparr>kw_jpeg_quality := Some 150\<rparr>)) = 100"
  using update_settings_clamps [where st = "StreamState_init ''main'' None" and kw = no_kwargs
      and q = 150 and s = "Fin 1.5"]
  by simp

text \<open>
  C10. \<open>clients_connected\<close> is never negative: \<open>increment_clients\<close> adds one,
  \<open>decrement_clients\<close> stops at zero (at zero it leaves zero), a new stream starts at zero,
  and every sequence of operations on a stream keeps a non-negative counter non-negative.
\<close>

theorem clients_connected_nonneg:
  "clients_connected (stats (snd (increment_clients st))) = clients_connected (stats st) + 1
   \<and> fst (increment_clients st) = clients_connected (stats st) + 1
   \<and> clients_connected (stats (snd (decrement_clients st))) = max 0 (clients_connected (stats st) - 1)
   \<and> fst (decrement_clients st) = max 0 (clients_connected (stats st) - 1)
   \<and> 0 \<le> clients_connected (stats (snd (decrement_clients st)))
   \<and> (clients_connected (stats st) = 0 \<longrightarrow>
        clients_connected (stats (snd (decrement_clients st))) = 0)
   \<and> (0 \<le> clients_connected (stats st) \<longrightarrow> 0 \<le> clients_connected (stats (run_ops st ops)))
   \<and> 0 \<le> clients_connected (stats (run_ops (StreamState_init sid src) ops))"
proof -
  have "0 \<le> clients_connected (stats (StreamState_init sid src))"
    by (simp add: StreamState_init_def StreamStats_init_def)
  then have "0 \<le> clients_connected (stats (run_ops (StreamState_init sid src) ops))"
    by (rule clients_run_ops)
  then show ?thesis
    by (simp add: increment_clients_def decrement_clients_def Let_def clients_run_ops)
qed

theorem clients_connected_nonneg_witness:
  "clients_connected (stats (StreamState_init ''main'' None)) = 0
   \<and> clients_connected (stats (snd (decrement_clients (StreamState_init ''main'' None)))) = 0
   \<and> 0 \<le> clients_connected (stats (run_ops (StreamState_init ''main'' None)
            [IncrementClients, DecrementClients, DecrementClients, DecrementClients]))"
proof -
  have z: "clients_connected (stats (StreamState_init ''main'' None)) = 0"
    by (simp add: StreamState_init_def StreamStats_init_def)
  show ?thesis
    using z clients_connected_nonneg [where st = "StreamState_init ''main'' None"
        and ops = "[IncrementClients, DecrementClients, DecrementClients, DecrementClients]"]
    by simp
qed











subsection \<open>KinectCapture\<close>











subsection \<open>PiCameraCapture\<close>

lemma stop_internal_fields:
  "instances (stop_internal w i) =
     (instances w)(i := (instances w i)\<lparr>running := False, process := None,
                                        frame_buffer := None, current_preset := None\<rparr>)"
  "active_instance (stop_internal w i) =
     (if active_instance w = Some i then None else active_instance w)"
  "os_procs (stop_internal w i) =
     (case process (instances w i) of None \<Rightarrow> os_procs w | Some p \<Rightarrow> removeAll p (os_procs w))"
  "os_log (stop_internal w i) =
     os_log w @ (case process (instances w i) of None \<Rightarrow> [] | Some p \<Rightarrow> [Terminated p])"
  "next_pid (stop_internal w i) = next_pid w"
  by (simp_all add: stop_internal_def Let_def split: option.splits)



lemma stop_internal_no_process:
  "process (instances (stop_internal w i) i) = None"
  by (simp add: stop_internal_fields)










lemma spawn_count_stop: "spawn_count (stop_internal w i) = spawn_count w"
  by (simp add: spawn_count_def stop_internal_fields split: option.splits)














subsection \<open>The /switch handler\<close>

lemma get_stream_modify:
  "get_stream (modify_stream gs t g) sid =
     (if sid = t then map_option g (get_stream gs t) else get_stream gs sid)"
proof -
  have "map_of (map (\<lambda>(k, v). if k = t then (k, g v) else (k, v)) xs) sid =
     (if sid = t then map_option g (map_of xs t) else map_of xs sid)" for xs
    by (induction xs) auto
  then show ?thesis by (simp add: get_stream_def modify_stream_def)
qed

lemma picam_res_stage:
  "m_config (snd (switch_picam_res m t params parts)) = m_config m"
  "sid \<noteq> t \<Longrightarrow> get_stream (m_state (snd (switch_picam_res m t params parts))) sid
                  = get_stream (m_state m) sid"
  "map_option (\<lambda>s. (current_source s, jpeg_quality s, scale_factor s, stats s, frame s, frame_id s))
      (get_stream (m_state (snd (switch_picam_res m t params parts))) t)
   = map_option (\<lambda>s. (current_source s, jpeg_quality s, scale_factor s, stats s, frame s, frame_id s))
      (get_stream (m_state m) t)"
  by (auto simp: switch_picam_res_def Let_def bad_request_def get_stream_modify update_settings_def
        no_kwargs_def option.map_comp comp_def)


lemma scale_stage:
  "m_config (snd (switch_scale py m t params parts)) = m_config m"
  "sid \<noteq> t \<Longrightarrow> get_stream (m_state (snd (switch_scale py m t params parts))) sid
                  = get_stream (m_state m) sid"
  "map_option (\<lambda>s. (current_source s, jpeg_quality s, stats s, frame s, frame_id s))
      (get_stream (m_state (snd (switch_scale py m t params parts))) t)
   = map_option (\<lambda>s. (current_source s, jpeg_quality s, stats s, frame s, frame_id s))
      (get_stream (m_state m) t)"
proof -
  let ?upd = "\<lambda>s. m\<lparr>m_state := modify_stream (m_state m) t
                 (\<lambda>st. update_settings st (no_kwargs\<lparr>kw_scale_factor := Some s\<rparr>))\<rparr>"
  have c: "m_config (snd (switch_picam_res (?upd s) t params ps)) = m_config m" for s ps
    by (simp add: picam_res_stage(1))
  show "m_config (snd (switch_scale py m t params parts)) = m_config m"
    by (simp add: switch_scale_def Let_def bad_request_def picam_res_stage(1) c
          split: option.splits)
  have o: "sid \<noteq> t \<Longrightarrow> get_stream (m_state (snd (switch_picam_res (?upd s) t params ps))) sid
      = get_stream (m_state m) sid" for s ps
    by (simp add: picam_res_stage(2) get_stream_modify)
  show "sid \<noteq> t \<Longrightarrow> get_stream (m_state (snd (switch_scale py m t params parts))) sid
                  = get_stream (m_state m) sid"
    by (simp add: switch_scale_def Let_def bad_request_def picam_res_stage(2) get_stream_modify
          split: option.splits)
  have v: "map_option (\<lambda>s. (current_source s, jpeg_quality s, stats s, frame s, frame_id s))
      (get_stream (m_state (snd (switch_picam_res m' t params ps))) t)
   = map_option (\<lambda>s. (current_source s, jpeg_quality s, stats s, frame s, frame_id s))
      (get_stream (m_state m') t)" for m' ps
    using picam_res_stage(3) [of m' t params ps]
    by (cases "get_stream (m_state (snd (switch_picam_res m' t params ps))) t";
        cases "get_stream (m_state m') t") auto
  have u: "map_option (\<lambda>s. (current_source s, jpeg_quality s, stats s, frame s, frame_id s))
      (get_stream (modify_stream (m_state m) t
                 (\<lambda>st. update_settings st (no_kwargs\<lparr>kw_scale_factor := Some s\<rparr>))) t)
   = map_option (\<lambda>s. (current_source s, jpeg_quality s, stats s, frame s, frame_id s))
      (get_stream (m_state m) t)" for s
    by (simp add: get_stream_modify update_settings_def no_kwargs_def option.map_comp comp_def)
  show "map_option (\<lambda>s. (current_source s, jpeg_quality s, stats s, frame s, frame_id s))
      (get_stream (m_state (snd (switch_scale py m t params parts))) t)
   = map_option (\<lambda>s. (current_source s, jpeg_quality s, stats s, frame s, frame_id s))
      (get_stream (m_state m) t)"
    by (simp add: switch_scale_def Let_def bad_request_def v u split: option.splits)
qed




lemma rejected_bad_request: "rejected (bad_request (''ERROR: '' @ msg @ [CHR 0x0A]))"
  by (simp add: rejected_def bad_request_def)

lemma rejected_simps:
  "rejected (bad_request (''ERROR: quality must be 1-100'' @ [CHR 0x0A]))"
  "rejected (bad_request (''ERROR: scale must be 0.25-2.0'' @ [CHR 0x0A]))"
  "rejected (bad_request (''ERROR: picam_res must be: '' @ repr_list (map fst PICAM_PRESETS) @ [CHR 0x0A]))"
  by (simp_all add: rejected_def bad_request_def)






lemma scale_keeps_quality:
  "map_option jpeg_quality (get_stream (m_state (snd (switch_scale py m t params parts))) t)
     = map_option jpeg_quality (get_stream (m_state m) t)"
  using scale_stage(3) [of py m t params parts]
  by (cases "get_stream (m_state (snd (switch_scale py m t params parts))) t";
      cases "get_stream (m_state m) t") auto













subsection \<open>The control session\<close>

lemma words_select_main: "split_ws (strip (''select main'' @ [CHR 0x0A])) = [''select'', ''main'']"
  by (simp add: split_ws_def strip_def is_space_def)

lemma words_quality_85: "split_ws (strip (''quality 85'' @ [CHR 0x0A])) = [''quality'', ''85'']"
  by (simp add: split_ws_def strip_def is_space_def)

lemma words_status: "split_ws (strip (''status'' @ [CHR 0x0A])) = [''status'']"
  by (simp add: split_ws_def strip_def is_space_def)

lemma lower_verbs:
  "lower ''select'' = ''select''" "lower ''quality'' = ''quality''" "lower ''status'' = ''status''"
  by (simp_all add: lower_def lower_char_def)

lemma verbs_not_sources:
  "''select'' \<notin> set (get_available_sources cfg)"
  "''quality'' \<notin> set (get_available_sources cfg)"
  "''status'' \<notin> set (get_available_sources cfg)"
  "''quality'' \<notin> set KINECT_SOURCES" "''status'' \<notin> set KINECT_SOURCES"
  by (simp_all add: get_available_sources_def ALL_SOURCES_def KINECT_SOURCES_def)

lemma command_select_main:
  assumes "get_stream (m_state (s_manager s)) ''main'' = Some sm"
  shows "control_command py s (''select main'' @ [CHR 0x0A]) =
     (send_lines [''OK: Selected stream '' @ [CHR 0x27] @ ''main'' @ [CHR 0x27]] @ prompt,
      s\<lparr>selected_stream := ''main''\<rparr>, True)"
  unfolding control_command_def words_select_main Let_def
  using assms by (simp add: lower_verbs)

lemma command_quality_85:
  assumes "get_stream (m_state (s_manager s)) (selected_stream s) = Some sm"
    "py_int py ''85'' = Some 85"
  shows "control_command py s (''quality 85'' @ [CHR 0x0A]) =
     (send_lines [''OK: JPEG quality set to '' @ str_int 85] @ prompt,
      update_selected s (no_kwargs\<lparr>kw_jpeg_quality := Some 85\<rparr>), True)"
  unfolding control_command_def words_quality_85 Let_def
  using assms by (simp add: lower_verbs verbs_not_sources with_stream_def)

lemma command_status:
  assumes "get_stream (m_state (s_manager s)) (selected_stream s) = Some sm"
  shows "control_command py s (''status'' @ [CHR 0x0A]) =
     (send_lines (status_lines py (selected_stream s) sm) @ prompt, s, True)"
  unfolding control_command_def words_status Let_def
  using assms by (simp add: lower_verbs verbs_not_sources with_stream_def)

lemma str_int_85: "str_int 85 = ''85''"
  by (simp add: str_int_def)

lemma update_quality_85: "update_settings sm (no_kwargs\<lparr>kw_jpeg_quality := Some 85\<rparr>) = sm\<lparr>jpeg_quality := 85\<rparr>"
  by (simp add: update_settings_def no_kwargs_def)

text \<open>
  C9. On any manager whose registry holds a stream \<open>main\<close>, with any stream selected
  before, the control session \<open>select main\<close>, \<open>quality 85\<close>, \<open>status\<close> answers the three
  commands, ends with \<open>main\<close> selected, and leaves the manager as it was except that
  \<open>main\<close>'s \<open>jpeg_quality\<close> is 85: every other stream (\<open>secondary\<close> among them) and every
  other field of \<open>main\<close> are untouched. The status reply is the one of \<open>main\<close> and its
  fourth line reads \<open>JPEG Quality: 85\<close>.
\<close>

theorem control_select_quality_status:
  assumes "get_stream (m_state m) ''main'' = Some sm"
    and "py_int py ''85'' = Some 85"
    and "gs_running (m_state m)"
  shows "control_session py \<lparr>s_manager = m, selected_stream = sel, server_running = True\<rparr>
           [''select main'' @ [CHR 0x0A], ''quality 85'' @ [CHR 0x0A], ''status'' @ [CHR 0x0A]]
         = ([send_lines [''OK: Selected stream '' @ [CHR 0x27] @ ''main'' @ [CHR 0x27]] @ prompt,
             send_lines [''OK: JPEG quality set to 85''] @ prompt,
             send_lines (status_lines py ''main'' (sm\<lparr>jpeg_quality := 85\<rparr>)) @ prompt],
            \<lparr>s_manager = m\<lparr>m_state := modify_stream (m_state m) ''main''
                                         (\<lambda>st. st\<lparr>jpeg_quality := 85\<rparr>)\<rparr>,
             selected_stream = ''main'', server_running = True\<rparr>)
       \<and> status_lines py ''main'' (sm\<lparr>jpeg_quality := 85\<rparr>) ! 3 = ''JPEG Quality: 85''
       \<and> get_stream (modify_stream (m_state m) ''main'' (\<lambda>st. st\<lparr>jpeg_quality := 85\<rparr>)) ''main''
           = Some (sm\<lparr>jpeg_quality := 85\<rparr>)
       \<and> (\<forall>sid. sid \<noteq> ''main'' \<longrightarrow>
             get_stream (modify_stream (m_state m) ''main'' (\<lambda>st. st\<lparr>jpeg_quality := 85\<rparr>)) sid
               = get_stream (m_state m) sid)"
proof -
  let ?s0 = "\<lparr>s_manager = m, selected_stream = sel, server_running = True\<rparr>"
  let ?s1 = "\<lparr>s_manager = m, selected_stream = ''main'', server_running = True\<rparr>"
  let ?m2 = "m\<lparr>m_state := modify_stream (m_state m) ''main'' (\<lambda>st. st\<lparr>jpeg_quality := 85\<rparr>)\<rparr>"
  let ?s2 = "\<lparr>s_manager = ?m2, selected_stream = ''main'', server_running = True\<rparr>"
  have run: "gs_running (m_state ?m2)"
    using assms(3) by (simp add: modify_stream_def)
  have c1: "control_command py ?s0 (''select main'' @ [CHR 0x0A]) =
     (send_lines [''OK: Selected stream '' @ [CHR 0x27] @ ''main'' @ [CHR 0x27]] @ prompt, ?s1, True)"
    using command_select_main [of ?s0 sm py] assms(1) by simp
  have c2: "control_command py ?s1 (''quality 85'' @ [CHR 0x0A]) =
     (send_lines [''OK: JPEG quality set to 85''] @ prompt, ?s2, True)"
    using command_quality_85 [of ?s1 sm py] assms(1,2)
    by (simp add: str_int_85 update_selected_def update_quality_85 [abs_def])
  have g2: "get_stream (m_state ?m2) ''main'' = Some (sm\<lparr>jpeg_quality := 85\<rparr>)"
    using assms(1) by (simp add: get_stream_modify)
  have c3: "control_command py ?s2 (''status'' @ [CHR 0x0A]) =
     (send_lines (status_lines py ''main'' (sm\<lparr>jpeg_quality := 85\<rparr>)) @ prompt, ?s2, True)"
    using command_status [of ?s2 "sm\<lparr>jpeg_quality := 85\<rparr>" py] g2 by simp
  have session: "control_session py ?s0
           [''select main'' @ [CHR 0x0A], ''quality 85'' @ [CHR 0x0A], ''status'' @ [CHR 0x0A]]
         = ([send_lines [''OK: Selected stream '' @ [CHR 0x27] @ ''main'' @ [CHR 0x27]] @ prompt,
             send_lines [''OK: JPEG quality set to 85''] @ prompt,
             send_lines (status_lines py ''main'' (sm\<lparr>jpeg_quality := 85\<rparr>)) @ prompt], ?s2)"
    using assms(3) run c1 c2 c3 by simp
  have line: "status_lines py ''main'' (sm\<lparr>jpeg_quality := 85\<rparr>) ! 3 = ''JPEG Quality: 85''"
    by (simp add: status_lines_def str_int_85)
  have others: "\<forall>sid. sid \<noteq> ''main'' \<longrightarrow>
             get_stream (modify_stream (m_state m) ''main'' (\<lambda>st. st\<lparr>jpeg_quality := 85\<rparr>)) sid
               = get_stream (m_state m) sid"
    by (simp add: get_stream_modify)
  from session line g2 others show ?thesis by simp
qed

theorem control_select_quality_status_witness:
  "get_stream (m_state (example_manager False)) ''main''
     = Some (StreamState_init ''main'' (Some ''picam''))
   \<and> py_int example_py ''85'' = Some 85
   \<and> gs_running (m_state (example_manager False))
   \<and> fst (control_session example_py
        \<lparr>s_manager = example_manager False, selected_stream = ''secondary'', server_running = True\<rparr>
        [''select main'' @ [CHR 0x0A], ''quality 85'' @ [CHR 0x0A], ''status'' @ [CHR 0x0A]]) ! 2
     = send_lines [''Stream: main'', ''Source: picam'', ''Resolution: 1280x800'',
          ''JPEG Quality: 85'', ''Scale Factor: 1.0'', ''Pi Cam Preset: high'', ''Frames: 0'',
          ''Clients: 0''] @ prompt
   \<and> map_option jpeg_quality (get_stream (m_state (s_manager (snd (control_session example_py
        \<lparr>s_manager = example_manager False, selected_stream = ''secondary'', server_running = True\<rparr>
        [''select main'' @ [CHR 0x0A], ''quality 85'' @ [CHR 0x0A], ''status'' @ [CHR 0x0A]]))))
        ''main'') = Some 85
   \<and> map_option jpeg_quality (get_stream (m_state (s_manager (snd (control_session example_py
        \<lparr>s_manager = example_manager False, selected_stream = ''secondary'', server_running = True\<rparr>
        [''select main'' @ [CHR 0x0A], ''quality 85'' @ [CHR 0x0A], ''status'' @ [CHR 0x0A]]))))
        ''secondary'') = Some 70"
proof -
  have a: "get_stream (m_state (example_manager False)) ''main''
     = Some (StreamState_init ''main'' (Some ''picam''))"
    by (simp add: example_manager_def get_stream_def)
  have b: "py_int example_py ''85'' = Some 85"
    by (simp add: example_py_def)
  have c: "gs_running (m_state (example_manager False))"
    by (simp add: example_manager_def)
  have sec: "map_option jpeg_quality (get_stream (m_state (example_manager False)) ''secondary'')
      = Some 70"
    by (simp add: example_manager_def get_stream_def StreamState_init_def JPEG_QUALITY_def)
  have lines: "status_lines example_py ''main''
        ((StreamState_init ''main'' (Some ''picam''))\<lparr>jpeg_quality := 85\<rparr>)
      = [''Stream: main'', ''Source: picam'', ''Resolution: 1280x800'',
          ''JPEG Quality: 85'', ''Scale Factor: 1.0'', ''Pi Cam Preset: high'', ''Frames: 0'',
          ''Clients: 0'']"
    by (simp add: status_lines_def resolution_def StreamState_init_def StreamStats_init_def
          DEFAULT_PICAM_PRESET_def presets_get_def PICAM_PRESETS_def PRESET_HIGH_def
          example_py_def str_int_def)
  note inst = control_select_quality_status [OF a b c, of "''secondary''"]
  show ?thesis
    using a b c sec inst unfolding lines by simp
qed

end
